theory Spec2Isabelle
  imports Main "HOL-Library.AList"
begin

section \<open>Python values used by \<open>multiagent_inspect/core.py\<close>\<close>

text \<open>
  Exceptions are values. The four built-in exceptions are the ones the statements of
  \<open>core.py\<close> themselves can raise; \<open>CollaboratorFailure\<close> tags whatever an external
  collaborator (\<open>get_model\<close>, \<open>generate\<close>, \<open>call_tools\<close>) raises, with its description.
\<close>

datatype py_error =
    IndexError
  | TypeError
  | AttributeError
  | UnboundLocalError
  | CollaboratorFailure string

text \<open>
  Modelled from the spec: the chat-message value types and the \<open>Tool\<close> type of the host
  framework, which \<open>core.py\<close> only imports. A tool is known by the name \<open>ToolDef(t).name\<close>
  reads; an assistant message carries its text and its (optional) list of requested tool
  calls; a tool-result message carries its text and the name of the capability it answers.
\<close>

datatype tool = Tool (tool_name: string)

datatype tool_call = ToolCall (call_function: string) (call_arguments: "(string \<times> string) list")

datatype assistant_message =
  AssistantMessage (message_text: string) (tool_calls: "tool_call list option")

datatype tool_message =
  ToolMessage (tool_text: string) (function_name: "string option")

datatype chat_message =
    ChatMessageSystem string
  | ChatMessageUser string
  | ChatMessageAssistant assistant_message
  | ChatMessageTool tool_message

text \<open>Python's truth value of \<open>output.message.tool_calls\<close>: neither \<open>None\<close> nor empty.\<close>

definition truthy :: "'a list option \<Rightarrow> bool" where
  "truthy v = (case v of None \<Rightarrow> False | Some xs \<Rightarrow> xs \<noteq> [])"

subsection \<open>Decimal formatting\<close>

definition digit_char :: "nat \<Rightarrow> char" where
  "digit_char d = ''0123456789'' ! d"

text \<open>\<open>str(n)\<close> for a non-negative integer.\<close>

fun str_of_nat :: "nat \<Rightarrow> string" where
  "str_of_nat n =
     (if n < 10 then [digit_char n] else str_of_nat (n div 10) @ [digit_char (n mod 10)])"

declare str_of_nat.simps [simp del]

text \<open>\<open>str(i)\<close> for any integer.\<close>

definition str_of_int :: "int \<Rightarrow> string" where
  "str_of_int i = (if i < 0 then CHR ''-'' # str_of_nat (nat (- i)) else str_of_nat (nat i))"

text \<open>The format specification \<open>:03d\<close> on a non-negative integer: zero-filled, minimum width 3.\<close>

definition format_03d :: "nat \<Rightarrow> string" where
  "format_03d n = replicate (3 - length (str_of_nat n)) CHR ''0'' @ str_of_nat n"

text \<open>The number a string of decimal digits denotes (used to state properties of ids).\<close>

definition digit_val :: "char \<Rightarrow> nat" where
  "digit_val c = of_char c - 48"

definition decimal_value :: "string \<Rightarrow> nat" where
  "decimal_value s = foldl (\<lambda>acc c. acc * 10 + digit_val c) 0 s"

text \<open>\<open>sep.join(xs)\<close>.\<close>

fun join :: "string \<Rightarrow> string list \<Rightarrow> string" where
  "join sep [] = []"
| "join sep [x] = x"
| "join sep (x # y # ys) = x @ sep @ join sep (y # ys)"

section \<open>The sub-agent entity, the heap and the session store\<close>

text \<open>The fields \<open>SubAgent.__init__\<close> stores. \<open>tools\<close> and \<open>metadata\<close> default to \<open>None\<close>.\<close>

record SubAgent =
  agent_id :: string
  max_steps :: int
  public_description :: string
  model :: string
  tools :: "tool list option"
  metadata :: "(string \<times> string) list option"
  messages :: "chat_message list"

text \<open>
  A record of every call made to the model and to the tool dispatcher, with its outcome
  (\<open>Inl\<close>: the collaborator raised).
\<close>

datatype call =
    Generate string "chat_message list" "tool list option" "string + assistant_message"
  | CallTools assistant_message "tool list" "string + tool_message list"

text \<open>
  \<open>SubAgent\<close> objects are mutable and shared: the registry dictionary stored under the key
  \<open>"sub_agents"\<close> holds references to the very objects the caller constructed (the tests
  compare \<open>_get_agent(...)\<close> with the constructed object by identity and read the
  caller's \<open>agent1.messages\<close> after a tool call). So objects live in a heap, addressed by
  natural numbers, and the registry is an insertion-ordered dictionary from ids to
  addresses. \<open>sub_agents = None\<close> means the store has no such key. \<open>id_counter\<close> is the
  class attribute \<open>SubAgent._id_counter\<close>.
\<close>

record world =
  id_counter :: nat
  heap :: "nat \<Rightarrow> SubAgent"
  next_ref :: nat
  sub_agents :: "(string \<times> nat) list option"
  calls :: "call list"

text \<open>
  The external collaborators, as parameters. The first argument of \<open>get_model\<close>,
  \<open>generate\<close> and \<open>call_tools\<close> is the number of collaborator calls made so far, so that
  a collaborator may answer the same request differently at different times.
  \<open>system_message\<close> is \<open>DEFAULT_SYSTEM_MESSAGE.format(submit=\<dots>)\<close>, \<open>repr_names\<close> is
  Python's rendering of a list of strings inside an f-string, \<open>get_model\<close> returns
  \<open>Some x\<close> when resolving the model selector raises. A collaborator returns a value
  or raises (\<open>Inl\<close>, with a description); it does not itself modify the entities or
  the store.
\<close>

record collaborators =
  system_message :: "string \<Rightarrow> string"
  repr_names :: "string list \<Rightarrow> string"
  get_model :: "nat \<Rightarrow> string \<Rightarrow> string option"
  generate :: "nat \<Rightarrow> string \<Rightarrow> chat_message list \<Rightarrow> tool list option \<Rightarrow> string + assistant_message"
  call_tools :: "nat \<Rightarrow> assistant_message \<Rightarrow> tool list \<Rightarrow> string + tool_message list"

subsection \<open>\<open>SubAgent.__init__\<close> and \<open>SubAgent.__str__\<close>\<close>

record init_args =
  arg_agent_id :: "string option"
  arg_max_steps :: int
  arg_model :: string
  arg_public_description :: string
  arg_internal_description :: string
  arg_tools :: "tool list option"
  arg_metadata :: "(string \<times> string) list option"

definition default_args :: init_args where
  "default_args =
     \<lparr>arg_agent_id = None, arg_max_steps = 10,
      arg_model = ''openai/gpt-4o-mini-2024-07-18-free'',
      arg_public_description = '''', arg_internal_description = '''',
      arg_tools = None, arg_metadata = None\<rparr>"

definition guidance :: string where
  "guidance = ''\<newline>\<newline>Only attempt tasks which you think you can do with your limited set of tools. After running a task, you might be asked questions about it. Only answer things that you know that you have done.\<newline>\<newline>''"

text \<open>The constructor returns the address of the new object and the new world.\<close>

definition SubAgent_init :: "collaborators \<Rightarrow> init_args \<Rightarrow> world \<Rightarrow> nat \<times> world" where
  "SubAgent_init env args w =
     (let (aid, w1) =
            (case arg_agent_id args of
               None \<Rightarrow> (format_03d (id_counter w), w\<lparr>id_counter := id_counter w + 1\<rparr>)
             | Some i \<Rightarrow> (i, w));
          sys_msg = system_message env ''_end_run'' @ guidance @ arg_internal_description args;
          obj = \<lparr>agent_id = aid, max_steps = arg_max_steps args,
                 public_description = arg_public_description args,
                 model = arg_model args, tools = arg_tools args,
                 metadata = arg_metadata args,
                 messages = [ChatMessageSystem sys_msg]\<rparr>;
          r = next_ref w1
      in (r, w1\<lparr>heap := (heap w1)(r := obj), next_ref := Suc r\<rparr>))"

text \<open>\<open>__str__\<close>; the test \<open>if self.tools\<close> fails on \<open>None\<close> and on the empty list.\<close>

definition SubAgent_str :: "collaborators \<Rightarrow> SubAgent \<Rightarrow> string" where
  "SubAgent_str env a =
     (let msg = ''ID: '' @ agent_id a @ ''\<newline>'' @
                ''Model: '' @ model a @ ''\<newline>'' @
                ''Description: '' @ public_description a @ ''\<newline>'' @
                ''Max Steps: '' @ str_of_int (max_steps a) @ ''\<newline>''
      in case tools a of
           None \<Rightarrow> msg
         | Some ts \<Rightarrow>
             if ts \<noteq> []
             then msg @ ''Tools: '' @ repr_names env (map tool_name ts) @ ''\<newline>''
             else msg)"

subsection \<open>The termination capability\<close>

definition end_run :: tool where
  "end_run = Tool ''_end_run''"

definition end_run_execute :: "string \<Rightarrow> string" where
  "end_run_execute stop_reason = ''Run ended with reason: '' @ stop_reason"

subsection \<open>Registry lookup and write-back\<close>

text \<open>
  \<open>_get_agent\<close>: \<open>Inr None\<close> is the Python value \<open>None\<close>; \<open>list(d.keys())[0]\<close> raises
  \<open>IndexError\<close> on an empty dictionary.
\<close>

definition get_agent :: "string option \<Rightarrow> world \<Rightarrow> py_error + nat option" where
  "get_agent sub_agent_id w =
     (let d = (case sub_agents w of None \<Rightarrow> [] | Some d \<Rightarrow> d) in
      case (case sub_agent_id of
              None \<Rightarrow> (case map fst d of [] \<Rightarrow> Inl IndexError | k # _ \<Rightarrow> Inr k)
            | Some i \<Rightarrow> Inr i) of
        Inl e \<Rightarrow> Inl e
      | Inr k \<Rightarrow> (case map_of d k of None \<Rightarrow> Inr None | Some r \<Rightarrow> Inr (Some r)))"

text \<open>
  \<open>_update_store\<close>: \<open>d[k] = v\<close> on an insertion-ordered dictionary replaces the value in
  place when the key exists and appends the pair otherwise, which is \<open>AList.update\<close>.
\<close>

definition update_store :: "nat \<Rightarrow> world \<Rightarrow> world" where
  "update_store r w =
     (let d = (case sub_agents w of None \<Rightarrow> [] | Some d \<Rightarrow> d)
      in w\<lparr>sub_agents := Some (AList.update (agent_id (heap w r)) r d)\<rparr>)"

text \<open>\<open>sub_agent.messages.append(m)\<close> / \<open>.extend(ms)\<close>: in place, on the shared object.\<close>

definition extend_messages :: "nat \<Rightarrow> chat_message list \<Rightarrow> world \<Rightarrow> world" where
  "extend_messages r ms w =
     w\<lparr>heap := (heap w)(r := (heap w r)\<lparr>messages := messages (heap w r) @ ms\<rparr>)\<rparr>"

subsection \<open>The run loop\<close>

text \<open>\<open>sub_agent.tools + [_end_run()]\<close>: \<open>None + list\<close> raises \<open>TypeError\<close>.\<close>

definition run_tools :: "SubAgent \<Rightarrow> py_error + tool list" where
  "run_tools a = (case tools a of None \<Rightarrow> Inl TypeError | Some ts \<Rightarrow> Inr (ts @ [end_run]))"

text \<open>
  One iteration of the loop body of \<open>_run_logic\<close> on the object at address \<open>r\<close>. The
  result \<open>Inr True\<close> is \<open>break\<close>. In \<open>get_model(m).generate(input=\<dots>, tools=\<dots>)\<close> Python
  evaluates \<open>get_model(m)\<close> first, then the arguments, then the call.
\<close>

definition run_step :: "collaborators \<Rightarrow> nat \<Rightarrow> world \<Rightarrow> (py_error + bool) \<times> world" where
  "run_step env r w =
     (case get_model env (length (calls w)) (model (heap w r)) of
        Some x \<Rightarrow> (Inl (CollaboratorFailure x), w)
      | None \<Rightarrow>
     (case run_tools (heap w r) of
        Inl e \<Rightarrow> (Inl e, w)
      | Inr ts \<Rightarrow>
     (let out = generate env (length (calls w)) (model (heap w r)) (messages (heap w r)) (Some ts);
          w1 = w\<lparr>calls := calls w @ [Generate (model (heap w r)) (messages (heap w r)) (Some ts) out]\<rparr>
      in case out of
           Inl x \<Rightarrow> (Inl (CollaboratorFailure x), w1)
         | Inr msg \<Rightarrow>
          (let w2 = extend_messages r [ChatMessageAssistant msg] w1
           in if truthy (tool_calls msg) then
                (case run_tools (heap w2 r) of
                   Inl e \<Rightarrow> (Inl e, w2)
                 | Inr ts2 \<Rightarrow>
                  (let res = call_tools env (length (calls w2)) msg ts2;
                       w3 = w2\<lparr>calls := calls w2 @ [CallTools msg ts2 res]\<rparr>
                   in case res of
                        Inl x \<Rightarrow> (Inl (CollaboratorFailure x), w3)
                      | Inr tool_results \<Rightarrow>
                         (let w4 = extend_messages r (map ChatMessageTool tool_results) w3
                          in (Inr (list_ex (\<lambda>tool_result. function_name tool_result = Some ''_end_run'')
                                     tool_results), w4))))
              else (Inr False, w2)))))"

text \<open>\<open>range(n)\<close>: empty when \<open>n \<le> 0\<close>.\<close>

definition range_py :: "int \<Rightarrow> nat list" where
  "range_py n = [0 ..< nat n]"

text \<open>
  \<open>for steps in range(\<dots>)\<close>: the second argument is the list of indices still to run, the
  third the current binding of the variable \<open>steps\<close> (\<open>None\<close>: unbound). The loop returns
  the binding of \<open>steps\<close> at its exit.
\<close>

fun run_loop :: "collaborators \<Rightarrow> nat \<Rightarrow> nat list \<Rightarrow> nat option \<Rightarrow> world \<Rightarrow> (py_error + nat option) \<times> world" where
  "run_loop env r [] steps w = (Inr steps, w)"
| "run_loop env r (i # rest) steps w =
     (case run_step env r w of
        (Inl e, w') \<Rightarrow> (Inl e, w')
      | (Inr brk, w') \<Rightarrow> if brk then (Inr (Some i), w') else run_loop env r rest (Some i) w')"

definition status :: "nat \<Rightarrow> string" where
  "status steps = ''Sub agent ran for '' @ str_of_nat steps @ '' steps. You can now ask it questions.''"

text \<open>
  \<open>_run_logic\<close>. The argument is what \<open>_get_agent\<close> returned: \<open>None.messages\<close> raises
  \<open>AttributeError\<close>. After a loop of zero iterations \<open>steps\<close> is unbound when the status
  string is built, which is after the write-back.
\<close>

definition run_logic :: "collaborators \<Rightarrow> nat option \<Rightarrow> string \<Rightarrow> world \<Rightarrow> (py_error + string) \<times> world" where
  "run_logic env sub_agent instructions w =
     (case sub_agent of
        None \<Rightarrow> (Inl AttributeError, w)
      | Some r \<Rightarrow>
         (let w1 = extend_messages r [ChatMessageUser instructions] w
          in case run_loop env r (range_py (max_steps (heap w1 r))) None w1 of
               (Inl e, w2) \<Rightarrow> (Inl e, w2)
             | (Inr steps, w2) \<Rightarrow>
                (let w3 = update_store r w2
                 in case steps of
                      None \<Rightarrow> (Inl UnboundLocalError, w3)
                    | Some i \<Rightarrow> (Inr (status i), w3))))"

subsection \<open>The chat protocol\<close>

text \<open>\<open>_chat_logic\<close>: \<open>generate\<close> is called without a \<open>tools\<close> argument.\<close>

definition chat_logic :: "collaborators \<Rightarrow> nat option \<Rightarrow> string \<Rightarrow> world \<Rightarrow> (py_error + string) \<times> world" where
  "chat_logic env sub_agent question w =
     (case sub_agent of
        None \<Rightarrow> (Inl AttributeError, w)
      | Some r \<Rightarrow>
         (let w1 = extend_messages r [ChatMessageUser question] w
          in case get_model env (length (calls w1)) (model (heap w1 r)) of
               Some x \<Rightarrow> (Inl (CollaboratorFailure x), w1)
             | None \<Rightarrow>
                (let out = generate env (length (calls w1)) (model (heap w1 r)) (messages (heap w1 r)) None;
                     w2 = w1\<lparr>calls := calls w1 @ [Generate (model (heap w1 r)) (messages (heap w1 r)) None out]\<rparr>
                 in case out of
                      Inl x \<Rightarrow> (Inl (CollaboratorFailure x), w2)
                    | Inr msg \<Rightarrow>
                       (let w3 = extend_messages r [ChatMessageAssistant msg] w2;
                            w4 = update_store r w3
                        in (Inr (message_text msg), w4)))))"

section \<open>The tool surface\<close>

text \<open>
  The three \<open>@tool\<close> factories return closures over the flag \<open>single_sub_agent\<close>; a tool
  value is the factory together with the flag it was built with.
\<close>

datatype surface_tool =
    sub_agent_specs bool
  | run_sub_agent bool
  | chat_with_sub_agent bool

text \<open>The parameter list of the \<open>execute\<close> closure each factory returns.\<close>

fun parameters :: "surface_tool \<Rightarrow> string list" where
  "parameters (sub_agent_specs single_sub_agent) = []"
| "parameters (run_sub_agent single_sub_agent) =
     (if single_sub_agent then [''instructions''] else [''sub_agent_id'', ''instructions''])"
| "parameters (chat_with_sub_agent single_sub_agent) =
     (if single_sub_agent then [''question''] else [''sub_agent_id'', ''question''])"

text \<open>\<open>str(agent)\<close> on what \<open>_get_agent\<close> returned.\<close>

definition str_agent :: "collaborators \<Rightarrow> world \<Rightarrow> nat option \<Rightarrow> string" where
  "str_agent env w agent = (case agent of None \<Rightarrow> ''None'' | Some r \<Rightarrow> SubAgent_str env (heap w r))"

text \<open>
  \<open>sub_agent_specs\<close>. In the multi branch \<open>for sub_agent in sub_agents\<close> iterates the
  registry dictionary, that is its keys, and \<open>str\<close> of a key (a string) is the key.
\<close>

definition sub_agent_specs_execute :: "collaborators \<Rightarrow> bool \<Rightarrow> world \<Rightarrow> (py_error + string) \<times> world" where
  "sub_agent_specs_execute env single_sub_agent w =
     (if single_sub_agent then
        (case get_agent None w of
           Inl e \<Rightarrow> (Inl e, w)
         | Inr agent \<Rightarrow> (Inr (str_agent env w agent), w))
      else
        (let d = (case sub_agents w of None \<Rightarrow> [] | Some d \<Rightarrow> d)
         in (Inr (join ''\<newline>'' (map fst d)), w)))"

definition run_sub_agent_single :: "collaborators \<Rightarrow> string \<Rightarrow> world \<Rightarrow> (py_error + string) \<times> world" where
  "run_sub_agent_single env instructions w =
     (case get_agent None w of
        Inl e \<Rightarrow> (Inl e, w)
      | Inr agent \<Rightarrow> run_logic env agent instructions w)"

definition run_sub_agent_multi :: "collaborators \<Rightarrow> string \<Rightarrow> string \<Rightarrow> world \<Rightarrow> (py_error + string) \<times> world" where
  "run_sub_agent_multi env sub_agent_id instructions w =
     (case get_agent (Some sub_agent_id) w of
        Inl e \<Rightarrow> (Inl e, w)
      | Inr agent \<Rightarrow> run_logic env agent instructions w)"

definition chat_with_sub_agent_single :: "collaborators \<Rightarrow> string \<Rightarrow> world \<Rightarrow> (py_error + string) \<times> world" where
  "chat_with_sub_agent_single env question w =
     (case get_agent None w of
        Inl e \<Rightarrow> (Inl e, w)
      | Inr agent \<Rightarrow> chat_logic env agent question w)"

definition chat_with_sub_agent_multi :: "collaborators \<Rightarrow> string \<Rightarrow> string \<Rightarrow> world \<Rightarrow> (py_error + string) \<times> world" where
  "chat_with_sub_agent_multi env sub_agent_id question w =
     (case get_agent (Some sub_agent_id) w of
        Inl e \<Rightarrow> (Inl e, w)
      | Inr agent \<Rightarrow> chat_logic env agent question w)"

text \<open>Calling a tool with positional arguments; a wrong number of them is a \<open>TypeError\<close>.\<close>

fun execute :: "collaborators \<Rightarrow> surface_tool \<Rightarrow> string list \<Rightarrow> world \<Rightarrow> (py_error + string) \<times> world" where
  "execute env (sub_agent_specs single) [] w = sub_agent_specs_execute env single w"
| "execute env (run_sub_agent True) [instructions] w = run_sub_agent_single env instructions w"
| "execute env (run_sub_agent False) [sub_agent_id, instructions] w =
     run_sub_agent_multi env sub_agent_id instructions w"
| "execute env (chat_with_sub_agent True) [question] w = chat_with_sub_agent_single env question w"
| "execute env (chat_with_sub_agent False) [sub_agent_id, question] w =
     chat_with_sub_agent_multi env sub_agent_id question w"
| "execute env t args w = (Inl TypeError, w)"

text \<open>
  The dictionary comprehension \<open>{a.agent_id: a for a in sub_agents}\<close>: pairs are inserted
  in list order, a repeated key keeps its position and takes the later value.
\<close>

definition registry_of :: "world \<Rightarrow> nat list \<Rightarrow> (string \<times> nat) list" where
  "registry_of w rs = foldl (\<lambda>d r. AList.update (agent_id (heap w r)) r d) [] rs"

text \<open>
  \<open>init_sub_agents\<close>. After \<open>len < 1\<close> and \<open>len > 1\<close> have failed, the \<open>elif len == 1\<close>
  always holds, so it is the last branch here.
\<close>

definition init_sub_agents :: "nat list \<Rightarrow> world \<Rightarrow> surface_tool list \<times> world" where
  "init_sub_agents rs w =
     (if length rs < 1 then ([], w)
      else
        (let w1 = w\<lparr>sub_agents := Some (registry_of w rs)\<rparr>
         in if length rs > 1
            then ([sub_agent_specs False, run_sub_agent False, chat_with_sub_agent False], w1)
            else ([sub_agent_specs True, run_sub_agent True, chat_with_sub_agent True], w1)))"

section \<open>Processes: sequences of constructions, builds and tool calls\<close>

datatype event =
    Construct init_args
  | InitSubAgents "nat list"
  | Invoke surface_tool "string list"

definition exec_event :: "collaborators \<Rightarrow> event \<Rightarrow> world \<Rightarrow> world" where
  "exec_event env ev w =
     (case ev of
        Construct args \<Rightarrow> snd (SubAgent_init env args w)
      | InitSubAgents rs \<Rightarrow> snd (init_sub_agents rs w)
      | Invoke t args \<Rightarrow> snd (execute env t args w))"

text \<open>The id of the object an event constructs with the id omitted, if it does.\<close>

definition auto_id :: "collaborators \<Rightarrow> event \<Rightarrow> world \<Rightarrow> string list" where
  "auto_id env ev w =
     (case ev of
        Construct args \<Rightarrow>
          (if arg_agent_id args = None
           then [agent_id (heap (snd (SubAgent_init env args w)) (fst (SubAgent_init env args w)))]
           else [])
      | _ \<Rightarrow> [])"

fun auto_ids :: "collaborators \<Rightarrow> event list \<Rightarrow> world \<Rightarrow> string list" where
  "auto_ids env [] w = []"
| "auto_ids env (ev # evs) w = auto_id env ev w @ auto_ids env evs (exec_event env ev w)"

fun exec_events :: "collaborators \<Rightarrow> event list \<Rightarrow> world \<Rightarrow> world" where
  "exec_events env [] w = w"
| "exec_events env (ev # evs) w = exec_events env evs (exec_event env ev w)"

definition is_auto :: "event \<Rightarrow> bool" where
  "is_auto ev = (case ev of Construct args \<Rightarrow> arg_agent_id args = None | _ \<Rightarrow> False)"

section \<open>A fresh process\<close>

text \<open>
  The state of a process that has imported the module and done nothing else: the counter
  is 1 (the class body), no object is allocated, the store has no registry, no call has
  been made. Unallocated addresses hold a placeholder that no reference reaches.
\<close>

definition unallocated :: SubAgent where
  "unallocated = \<lparr>agent_id = [], max_steps = 0, public_description = [], model = [],
                  tools = None, metadata = None, messages = []\<rparr>"

definition fresh :: world where
  "fresh = \<lparr>id_counter = 1, heap = (\<lambda>_. unallocated), next_ref = 0, sub_agents = None, calls = []\<rparr>"

section \<open>Vocabulary for stating properties of runs\<close>

text \<open>
  The world after appending \<open>ms\<close> to the messages of the object at \<open>r\<close> and \<open>cs\<close> to the
  record of collaborator calls; nothing else changes.
\<close>

definition grow :: "nat \<Rightarrow> chat_message list \<Rightarrow> call list \<Rightarrow> world \<Rightarrow> world" where
  "grow r ms cs w =
     w\<lparr>heap := (heap w)(r := (heap w r)\<lparr>messages := messages (heap w r) @ ms\<rparr>),
       calls := calls w @ cs\<rparr>"

text \<open>A call of the model.\<close>

definition is_generate :: "call \<Rightarrow> bool" where
  "is_generate c = (case c of Generate _ _ _ _ \<Rightarrow> True | CallTools _ _ _ \<Rightarrow> False)"

text \<open>
  A dispatch that returned a tool-result message whose capability name is that of the
  termination capability, whatever its text.
\<close>

definition is_end_dispatch :: "call \<Rightarrow> bool" where
  "is_end_dispatch c =
     (case c of
        Generate _ _ _ _ \<Rightarrow> False
      | CallTools _ _ res \<Rightarrow>
          (case res of
             Inl _ \<Rightarrow> False
           | Inr tool_results \<Rightarrow>
               list_ex (\<lambda>tool_result. function_name tool_result = Some ''_end_run'') tool_results))"

definition model_invocations :: "call list \<Rightarrow> nat" where
  "model_invocations cs = length (filter is_generate cs)"

definition ended :: "call list \<Rightarrow> bool" where
  "ended cs = (cs \<noteq> [] \<and> is_end_dispatch (last cs))"

text \<open>The collaborator calls made between two worlds.\<close>

definition new_calls :: "world \<Rightarrow> world \<Rightarrow> call list" where
  "new_calls w w' = drop (length (calls w)) (calls w')"

text \<open>What one loop iteration can add to the record of calls, against its result.\<close>

definition step_shape :: "(py_error + bool) \<Rightarrow> call list \<Rightarrow> bool" where
  "step_shape res cs =
     ((cs = [] \<and> isl res)
      \<or> (\<exists>g. cs = [g] \<and> is_generate g \<and> res \<noteq> Inr True)
      \<or> (\<exists>g d. cs = [g, d] \<and> is_generate g \<and> \<not> is_generate d
                \<and> (case res of Inl _ \<Rightarrow> \<not> is_end_dispatch d | Inr b \<Rightarrow> b = is_end_dispatch d)))"

text \<open>The invariant of the loop over the indices still to run.\<close>

definition loop_shape :: "nat list \<Rightarrow> nat option \<Rightarrow> (py_error + nat option) \<Rightarrow> call list \<Rightarrow> bool" where
  "loop_shape indices steps res cs =
     (model_invocations cs \<le> length indices
      \<and> (\<forall>c\<in>set (butlast cs). \<not> is_end_dispatch c)
      \<and> (case res of
           Inl e \<Rightarrow> True
         | Inr steps' \<Rightarrow>
             (\<not> ended cs \<longrightarrow> model_invocations cs = length indices)
             \<and> steps' = (if model_invocations cs = 0 then steps
                         else Some (indices ! (model_invocations cs - 1)))))"

text \<open>The entity state a lookup of an id in the registry shows.\<close>

definition registry_view :: "world \<Rightarrow> string \<Rightarrow> SubAgent option" where
  "registry_view w sub_agent_id =
     (case get_agent (Some sub_agent_id) w of
        Inr (Some r) \<Rightarrow> Some (heap w r)
      | _ \<Rightarrow> None)"

text \<open>
  The output the specification describes for \<open>list_specs\<close> in multi mode: the
  descriptions of the registered entities, one per line, in registry order.
\<close>

definition list_specs_spec :: "collaborators \<Rightarrow> world \<Rightarrow> string" where
  "list_specs_spec env w =
     join ''\<newline>'' (map (\<lambda>(k, r). SubAgent_str env (heap w r))
                         (case sub_agents w of None \<Rightarrow> [] | Some d \<Rightarrow> d))"

section \<open>Concrete collaborators and sessions\<close>

text \<open>A model that answers \<open>YES\<close> and requests no tool.\<close>

definition quiet_model :: collaborators where
  "quiet_model =
     \<lparr>system_message = (\<lambda>submit. ''Finish with '' @ submit),
      repr_names = (\<lambda>names. concat names),
      get_model = (\<lambda>_ _. None),
      generate = (\<lambda>_ _ _ _. Inr (AssistantMessage ''YES'' None)),
      call_tools = (\<lambda>_ _ _. Inr [])\<rparr>"

text \<open>A model that calls the termination capability at once.\<close>

definition ending_model :: collaborators where
  "ending_model =
     quiet_model\<lparr>generate := (\<lambda>_ _ _ _.
         Inr (AssistantMessage [] (Some [ToolCall ''_end_run'' [(''stop_reason'', ''done'')]]))),
       call_tools := (\<lambda>_ _ _. Inr [ToolMessage (end_run_execute ''done'') (Some ''_end_run'')])\<rparr>"

text \<open>A model whose invocation raises.\<close>

definition failing_model :: collaborators where
  "failing_model = quiet_model\<lparr>generate := (\<lambda>_ _ _ _. Inl ''model unavailable'')\<rparr>"

text \<open>A model selector that cannot be resolved: \<open>get_model\<close> raises.\<close>

definition unresolvable_model :: collaborators where
  "unresolvable_model = quiet_model\<lparr>get_model := (\<lambda>_ _. Some ''unknown model'')\<rparr>"

text \<open>\<open>SubAgent(max_steps=0)\<close>, tools omitted, then \<open>init_sub_agents([agent1])\<close>.\<close>

definition zero_budget_args :: init_args where
  "zero_budget_args = default_args\<lparr>arg_max_steps := 0\<rparr>"

definition zero_budget :: world where
  "zero_budget = snd (init_sub_agents [0] (snd (SubAgent_init quiet_model zero_budget_args fresh)))"

text \<open>\<open>SubAgent(max_steps=2, tools=[dummy_tool()])\<close>, then \<open>init_sub_agents([agent1])\<close>.\<close>

definition solo_args :: init_args where
  "solo_args = default_args\<lparr>arg_max_steps := 2, arg_tools := Some [Tool ''dummy_tool'']\<rparr>"

definition solo :: world where
  "solo = snd (init_sub_agents [0] (snd (SubAgent_init quiet_model solo_args fresh)))"

text \<open>\<open>SubAgent()\<close>, then \<open>init_sub_agents([agent1])\<close>.\<close>

definition lone_default :: world where
  "lone_default = snd (init_sub_agents [0] (snd (SubAgent_init quiet_model default_args fresh)))"

text \<open>\<open>SubAgent()\<close> twice, then \<open>init_sub_agents([agent1, agent2])\<close>.\<close>

definition pair_built :: world where
  "pair_built = snd (SubAgent_init quiet_model default_args
                  (snd (SubAgent_init quiet_model default_args fresh)))"

definition pair :: world where
  "pair = snd (init_sub_agents [0, 1] pair_built)"

section \<open>Auxiliary lemmas\<close>

subsection \<open>The registry\<close>

lemma update_fresh: "k \<notin> fst ` set d \<Longrightarrow> AList.update k v d = d @ [(k, v)]"
  by (induction d) auto

lemma registry_of_distinct_aux:
  "distinct (map f rs) \<Longrightarrow> \<forall>r\<in>set rs. f r \<notin> fst ` set d0 \<Longrightarrow>
   foldl (\<lambda>d r. AList.update (f r) r d) d0 rs = d0 @ map (\<lambda>r. (f r, r)) rs"
proof (induction rs arbitrary: d0)
  case Nil
  then show ?case by simp
next
  case (Cons a rs)
  have u: "AList.update (f a) a d0 = d0 @ [(f a, a)]"
    using Cons.prems(2) by (simp add: update_fresh)
  have "\<forall>r\<in>set rs. f r \<notin> fst ` set (d0 @ [(f a, a)])"
    using Cons.prems by (auto simp: image_iff)
  then have "foldl (\<lambda>d r. AList.update (f r) r d) (d0 @ [(f a, a)]) rs
             = (d0 @ [(f a, a)]) @ map (\<lambda>r. (f r, r)) rs"
    using Cons.IH Cons.prems(1) by simp
  then show ?case by (simp add: u)
qed

lemma registry_of_distinct:
  "distinct (map (\<lambda>r. agent_id (heap w r)) rs) \<Longrightarrow>
   registry_of w rs = map (\<lambda>r. (agent_id (heap w r), r)) rs"
  unfolding registry_of_def
  using registry_of_distinct_aux [of "\<lambda>r. agent_id (heap w r)" rs "[]"] by simp

lemma get_agent_default_first:
  "sub_agents w = Some ((k, r) # d) \<Longrightarrow> get_agent None w = Inr (Some r)"
  by (simp add: get_agent_def)

lemma get_agent_unknown:
  "k \<notin> fst ` set (case sub_agents w of None \<Rightarrow> [] | Some d \<Rightarrow> d) \<Longrightarrow> get_agent (Some k) w = Inr None"
  by (auto simp: get_agent_def map_of_eq_None_iff split: option.splits)

lemma get_agent_Some:
  "get_agent (Some k) w = Inr (map_of (case sub_agents w of None \<Rightarrow> [] | Some d \<Rightarrow> d) k)"
  by (simp add: get_agent_def split: option.splits)

subsection \<open>What a run may change\<close>

text \<open>A run only appends: messages to the object it runs, calls to the record. \<open>_update_store\<close> only touches the registry.\<close>

lemma grow_nil [simp]: "grow r [] [] w = w"
  by (simp add: grow_def)

lemma grow_grow [simp]: "grow r ms2 cs2 (grow r ms1 cs1 w) = grow r (ms1 @ ms2) (cs1 @ cs2) w"
  by (simp add: grow_def)

lemma extend_messages_grow: "extend_messages r ms w = grow r ms [] w"
  by (simp add: grow_def extend_messages_def)

lemma log_grow: "w\<lparr>calls := calls w @ cs\<rparr> = grow r [] cs w"
  by (simp add: grow_def)

lemma grow_calls_upd [simp]: "(grow r ms cs w)\<lparr>calls := calls w @ cs'\<rparr> = grow r ms cs' w"
  by (simp add: grow_def)

lemma grow_fields [simp]:
  "id_counter (grow r ms cs w) = id_counter w"
  "next_ref (grow r ms cs w) = next_ref w"
  "sub_agents (grow r ms cs w) = sub_agents w"
  "calls (grow r ms cs w) = calls w @ cs"
  "heap (grow r ms cs w) r = (heap w r)\<lparr>messages := messages (heap w r) @ ms\<rparr>"
  "r' \<noteq> r \<Longrightarrow> heap (grow r ms cs w) r' = heap w r'"
  by (simp_all add: grow_def)

lemma update_store_fields [simp]:
  "id_counter (update_store r w) = id_counter w"
  "next_ref (update_store r w) = next_ref w"
  "heap (update_store r w) = heap w"
  "calls (update_store r w) = calls w"
  by (simp_all add: update_store_def Let_def)

subsection \<open>One iteration\<close>

lemma run_step_grow:
  "\<exists>ms cs. snd (run_step env r w) = grow r ms cs w \<and> step_shape (fst (run_step env r w)) cs"
proof (cases "get_model env (length (calls w)) (model (heap w r))")
  case (Some x)
  have "snd (run_step env r w) = grow r [] [] w \<and> step_shape (fst (run_step env r w)) []"
    using Some by (simp add: run_step_def step_shape_def)
  then show ?thesis by blast
next
  case None
  note gm = None
  show ?thesis
  proof (cases "tools (heap w r)")
    case None
    have "snd (run_step env r w) = grow r [] [] w \<and> step_shape (fst (run_step env r w)) []"
      using None gm by (simp add: run_step_def step_shape_def run_tools_def)
    then show ?thesis by blast
  next
    case (Some ts)
    let ?g = "Generate (model (heap w r)) (messages (heap w r)) (Some (ts @ [end_run]))"
    show ?thesis
    proof (cases "generate env (length (calls w)) (model (heap w r)) (messages (heap w r)) (Some (ts @ [end_run]))")
      case (Inl x)
      have "snd (run_step env r w) = grow r [] [?g (Inl x)] w
            \<and> step_shape (fst (run_step env r w)) [?g (Inl x)]"
        using Some gm Inl
        by (simp add: run_step_def step_shape_def run_tools_def Let_def log_grow [of _ _ r] is_generate_def)
      then show ?thesis by blast
    next
      case (Inr msg)
      note out = Inr
      show ?thesis
      proof (cases "truthy (tool_calls msg)")
        case False
        have "snd (run_step env r w) = grow r [ChatMessageAssistant msg] [?g (Inr msg)] w
              \<and> step_shape (fst (run_step env r w)) [?g (Inr msg)]"
          using Some gm out False
          by (simp add: run_step_def step_shape_def run_tools_def Let_def
              log_grow [of _ _ r] extend_messages_grow is_generate_def)
        then show ?thesis by blast
      next
        case True
        let ?d = "CallTools msg (ts @ [end_run])"
        show ?thesis
        proof (cases "call_tools env (Suc (length (calls w))) msg (ts @ [end_run])")
          case (Inl x)
          have "snd (run_step env r w) = grow r [ChatMessageAssistant msg] [?g (Inr msg), ?d (Inl x)] w
                \<and> step_shape (fst (run_step env r w)) [?g (Inr msg), ?d (Inl x)]"
            using Some gm out True Inl
            by (simp add: run_step_def step_shape_def run_tools_def Let_def
                log_grow [of _ _ r] extend_messages_grow is_generate_def is_end_dispatch_def)
          then show ?thesis by blast
        next
          case (Inr tool_results)
          have "snd (run_step env r w) =
                  grow r (ChatMessageAssistant msg # map ChatMessageTool tool_results)
                    [?g (Inr msg), ?d (Inr tool_results)] w
                \<and> step_shape (fst (run_step env r w)) [?g (Inr msg), ?d (Inr tool_results)]"
            using Some gm out True Inr
            by (simp add: run_step_def step_shape_def run_tools_def Let_def
                log_grow [of _ _ r] extend_messages_grow is_generate_def is_end_dispatch_def)
          then show ?thesis by blast
        qed
      qed
    qed
  qed
qed

lemma gen_not_end: "is_generate g \<Longrightarrow> \<not> is_end_dispatch g"
  by (cases g) (simp_all add: is_generate_def is_end_dispatch_def)

lemma step_shape_gens: "step_shape res cs \<Longrightarrow> model_invocations cs \<le> 1"
  by (auto simp: step_shape_def model_invocations_def)

lemma step_shape_butlast: "step_shape res cs \<Longrightarrow> \<forall>c\<in>set (butlast cs). \<not> is_end_dispatch c"
  by (auto simp: step_shape_def gen_not_end)

lemma step_shape_Inr:
  "step_shape (Inr b) cs \<Longrightarrow>
     model_invocations cs = 1 \<and> cs \<noteq> [] \<and> (b \<longleftrightarrow> ended cs)
     \<and> (\<not> b \<longrightarrow> (\<forall>c\<in>set cs. \<not> is_end_dispatch c))"
  by (auto simp: step_shape_def model_invocations_def ended_def gen_not_end)

lemma run_step_no_tools:
  "tools (heap w r) = None \<Longrightarrow>
   run_step env r w =
     (Inl (case get_model env (length (calls w)) (model (heap w r)) of
             None \<Rightarrow> TypeError | Some x \<Rightarrow> CollaboratorFailure x), w)"
  by (simp add: run_step_def run_tools_def split: option.splits)


lemma run_step_returns:
  assumes "\<forall>n m. get_model env n m = None"
    and "\<forall>n m ms ts. \<exists>a. generate env n m ms ts = Inr a"
    and "\<forall>n a ts. \<exists>rs. call_tools env n a ts = Inr rs"
    and "tools (heap w r) \<noteq> None"
  shows "\<exists>b ms cs. run_step env r w = (Inr b, grow r ms cs w)"
proof -
  obtain ms cs where s: "snd (run_step env r w) = grow r ms cs w"
    using run_step_grow by blast
  have "\<exists>b. fst (run_step env r w) = Inr b"
    using assms
    by (auto simp: run_step_def run_tools_def Let_def extend_messages_def split: option.splits sum.splits)
       (metis sum.distinct(1))+
  then show ?thesis using s by (metis prod.collapse)
qed

subsection \<open>The loop and the whole run\<close>

lemma model_invocations_append [simp]:
  "model_invocations (cs1 @ cs2) = model_invocations cs1 + model_invocations cs2"
  by (simp add: model_invocations_def)

lemma model_invocations_Nil [simp]: "model_invocations [] = 0"
  by (simp add: model_invocations_def)

lemma ended_Nil [simp]: "\<not> ended []"
  by (simp add: ended_def)

lemma range_py_length [simp]: "length (range_py n) = nat n"
  by (simp add: range_py_def)

lemma range_py_nth: "i < nat n \<Longrightarrow> range_py n ! i = i"
  by (simp add: range_py_def)

lemma range_py_pos: "1 \<le> n \<Longrightarrow> range_py n = 0 # [1 ..< nat n]"
  by (simp add: range_py_def upt_rec)

lemma range_py_nonpos: "n \<le> 0 \<Longrightarrow> range_py n = []"
  by (simp add: range_py_def)

lemma run_loop_grow:
  "\<exists>ms cs. snd (run_loop env r indices steps w) = grow r ms cs w
           \<and> loop_shape indices steps (fst (run_loop env r indices steps w)) cs"
proof (induction indices arbitrary: steps w)
  case Nil
  have "snd (run_loop env r [] steps w) = grow r [] [] w
        \<and> loop_shape [] steps (fst (run_loop env r [] steps w)) []"
    by (simp add: loop_shape_def)
  then show ?case by blast
next
  case (Cons i rest)
  obtain ms1 cs1 where s1: "snd (run_step env r w) = grow r ms1 cs1 w"
    and sh1: "step_shape (fst (run_step env r w)) cs1"
    using run_step_grow by blast
  show ?case
  proof (cases "fst (run_step env r w)")
    case (Inl e)
    have "run_loop env r (i # rest) steps w = (Inl e, grow r ms1 cs1 w)"
      using Inl s1 by (simp add: split_beta)
    moreover have "loop_shape (i # rest) steps (Inl e) cs1"
      using step_shape_gens [OF sh1] step_shape_butlast [OF sh1] by (simp add: loop_shape_def)
    ultimately show ?thesis by (metis fst_conv snd_conv)
  next
    case (Inr brk)
    note shr = step_shape_Inr [OF sh1 [unfolded Inr]]
    show ?thesis
    proof (cases brk)
      case True
      have "run_loop env r (i # rest) steps w = (Inr (Some i), grow r ms1 cs1 w)"
        using Inr True s1 by (simp add: split_beta)
      moreover have "loop_shape (i # rest) steps (Inr (Some i)) cs1"
        using shr True step_shape_butlast [OF sh1] by (simp add: loop_shape_def)
      ultimately show ?thesis by (metis fst_conv snd_conv)
    next
      case False
      obtain ms2 cs2 where
        s2: "snd (run_loop env r rest (Some i) (grow r ms1 cs1 w)) = grow r ms2 cs2 (grow r ms1 cs1 w)"
        and sh2: "loop_shape rest (Some i) (fst (run_loop env r rest (Some i) (grow r ms1 cs1 w))) cs2"
        using Cons.IH by blast
      have eq: "run_loop env r (i # rest) steps w = run_loop env r rest (Some i) (grow r ms1 cs1 w)"
        using Inr False s1 by (simp add: split_beta)
      have nb: "\<forall>c\<in>set cs1. \<not> is_end_dispatch c" using shr False by simp
      have bl: "\<forall>c\<in>set (butlast (cs1 @ cs2)). \<not> is_end_dispatch c"
        using nb sh2 by (auto simp: butlast_append loop_shape_def dest: in_set_butlastD)
      have en: "ended (cs1 @ cs2) = ended cs2"
      proof (cases "cs2 = []")
        case True
        then show ?thesis using nb shr by (auto simp: ended_def)
      next
        case False
        then show ?thesis by (simp add: ended_def)
      qed
      have "loop_shape (i # rest) steps (fst (run_loop env r rest (Some i) (grow r ms1 cs1 w))) (cs1 @ cs2)"
        using sh2 shr bl en
        by (auto simp: loop_shape_def split: sum.splits)
      then show ?thesis using eq s2 by (metis grow_grow)
    qed
  qed
qed

lemma run_logic_grow:
  "\<exists>lres ms cs.
     loop_shape (range_py (max_steps (heap w r))) None lres cs
     \<and> run_logic env (Some r) instructions w =
         (case lres of
            Inl e \<Rightarrow> (Inl e, grow r (ChatMessageUser instructions # ms) cs w)
          | Inr steps \<Rightarrow>
              ((case steps of None \<Rightarrow> Inl UnboundLocalError | Some i \<Rightarrow> Inr (status i)),
               update_store r (grow r (ChatMessageUser instructions # ms) cs w)))"
proof -
  let ?w1 = "grow r [ChatMessageUser instructions] [] w"
  let ?indices = "range_py (max_steps (heap w r))"
  obtain ms cs where s: "snd (run_loop env r ?indices None ?w1) = grow r ms cs ?w1"
    and sh: "loop_shape ?indices None (fst (run_loop env r ?indices None ?w1)) cs"
    using run_loop_grow by blast
  have g: "grow r ms cs ?w1 = grow r (ChatMessageUser instructions # ms) cs w" by simp
  have "run_logic env (Some r) instructions w =
         (case fst (run_loop env r ?indices None ?w1) of
            Inl e \<Rightarrow> (Inl e, grow r (ChatMessageUser instructions # ms) cs w)
          | Inr steps \<Rightarrow>
              ((case steps of None \<Rightarrow> Inl UnboundLocalError | Some i \<Rightarrow> Inr (status i)),
               update_store r (grow r (ChatMessageUser instructions # ms) cs w)))"
    using s unfolding g
    by (simp add: run_logic_def extend_messages_grow Let_def split_beta split: sum.splits option.splits)
  then show ?thesis using sh by blast
qed

lemma run_logic_no_tools:
  assumes "tools (heap w r) = None"
  shows "isl (fst (run_logic env (Some r) instructions w))"
proof (cases "1 \<le> max_steps (heap w r)")
  case True
  then show ?thesis using assms
    by (simp add: run_logic_def Let_def extend_messages_def range_py_pos run_step_no_tools)
next
  case False
  then have "range_py (max_steps (heap w r)) = []" by (simp add: range_py_nonpos)
  then show ?thesis
    by (simp add: run_logic_def Let_def extend_messages_def)
qed



lemma run_loop_returns:
  assumes "\<forall>n m. get_model env n m = None"
    and "\<forall>n m ms ts. \<exists>a. generate env n m ms ts = Inr a"
    and "\<forall>n a ts. \<exists>rs. call_tools env n a ts = Inr rs"
    and "tools (heap w r) \<noteq> None"
  shows "\<exists>steps' ms cs. run_loop env r indices steps w = (Inr steps', grow r ms cs w)
           \<and> (indices \<noteq> [] \<longrightarrow> steps' \<noteq> None)"
  using assms(4)
proof (induction indices arbitrary: steps w)
  case Nil
  have "run_loop env r [] steps w = (Inr steps, grow r [] [] w)" by simp
  then show ?case by blast
next
  case (Cons i rest)
  obtain b ms1 cs1 where s: "run_step env r w = (Inr b, grow r ms1 cs1 w)"
    using run_step_returns [OF assms(1-3) Cons.prems] by blast
  show ?case
  proof (cases b)
    case True
    then have "run_loop env r (i # rest) steps w = (Inr (Some i), grow r ms1 cs1 w)"
      using s by simp
    then show ?thesis by blast
  next
    case False
    have t1: "tools (heap (grow r ms1 cs1 w) r) \<noteq> None" using Cons.prems by simp
    obtain steps' ms cs where
      l: "run_loop env r rest (Some i) (grow r ms1 cs1 w) = (Inr steps', grow r ms cs (grow r ms1 cs1 w))"
      and n: "rest \<noteq> [] \<longrightarrow> steps' \<noteq> None"
      using Cons.IH [OF t1] by blast
    have "rest = [] \<Longrightarrow> steps' = Some i" using l by simp
    then have "steps' \<noteq> None" using n by (cases "rest = []") auto
    moreover have "run_loop env r (i # rest) steps w = (Inr steps', grow r (ms1 @ ms) (cs1 @ cs) w)"
      using s False l by simp
    ultimately show ?thesis by blast
  qed
qed

lemma run_logic_returns:
  assumes "\<forall>n m. get_model env n m = None"
    and "\<forall>n m ms ts. \<exists>a. generate env n m ms ts = Inr a"
    and "\<forall>n a ts. \<exists>rs. call_tools env n a ts = Inr rs"
    and "tools (heap w r) \<noteq> None"
    and "1 \<le> max_steps (heap w r)"
  shows "\<exists>s. fst (run_logic env (Some r) instructions w) = Inr s"
proof -
  let ?w1 = "grow r [ChatMessageUser instructions] [] w"
  let ?ix = "range_py (max_steps (heap w r))"
  have t1: "tools (heap ?w1 r) \<noteq> None" using assms(4) by simp
  have ne: "?ix \<noteq> []" using assms(5) by (simp add: range_py_pos)
  obtain steps' ms cs where
    l: "run_loop env r ?ix None ?w1 = (Inr steps', grow r ms cs ?w1)" and "?ix \<noteq> [] \<longrightarrow> steps' \<noteq> None"
    using run_loop_returns [OF assms(1-3) t1] by blast
  then obtain i where "steps' = Some i" using ne by auto
  then show ?thesis using l
    by (simp add: run_logic_def extend_messages_grow Let_def)
qed

subsection \<open>Decimal strings\<close>

lemma digit_val_digit_char: "d < 10 \<Longrightarrow> digit_val (digit_char d) = d"
proof -
  assume "d < 10"
  then have "d \<in> {0,1,2,3,4,5,6,7,8,9}" by auto
  then show ?thesis by (auto simp: digit_val_def digit_char_def)
qed

lemma decimal_value_snoc: "decimal_value (s @ [c]) = decimal_value s * 10 + digit_val c"
  by (simp add: decimal_value_def)

lemma decimal_value_str_of_nat: "decimal_value (str_of_nat n) = n"
proof (induction n rule: str_of_nat.induct)
  case (1 n)
  show ?case
  proof (cases "n < 10")
    case True
    then show ?thesis
      by (simp add: str_of_nat.simps [of n] decimal_value_def digit_val_digit_char)
  next
    case False
    then show ?thesis
      using 1 by (simp add: str_of_nat.simps [of n] decimal_value_snoc digit_val_digit_char)
  qed
qed

lemma decimal_value_zeros: "decimal_value (replicate k CHR ''0'' @ s) = decimal_value s"
proof -
  have "foldl (\<lambda>acc c. acc * 10 + digit_val c) 0 (replicate k CHR ''0'') = 0"
    by (induction k) (simp_all add: digit_val_def)
  then show ?thesis by (simp add: decimal_value_def)
qed

lemma decimal_value_format_03d: "decimal_value (format_03d n) = n"
  by (simp add: format_03d_def decimal_value_zeros decimal_value_str_of_nat)

lemma length_str_of_nat_pos: "Suc 0 \<le> length (str_of_nat n)"
  by (subst str_of_nat.simps) simp

lemma length_str_of_nat_small: "n < 1000 \<Longrightarrow> length (str_of_nat n) \<le> 3"
  by (simp add: str_of_nat.simps [of n] str_of_nat.simps [of "n div 10"] str_of_nat.simps [of "n div 10 div 10"])

lemma length_str_of_nat_large:
  assumes "1000 \<le> n"
  shows "4 \<le> length (str_of_nat n)"
proof -
  have a: "\<not> n < 10" "\<not> n div 10 < 10" "\<not> n div 10 div 10 < 10"
    using assms by simp_all
  show ?thesis
    using length_str_of_nat_pos [of "n div 10 div 10 div 10"] a
    by (simp add: str_of_nat.simps [of n] str_of_nat.simps [of "n div 10"]
          str_of_nat.simps [of "n div 10 div 10"])
qed

lemma length_format_03d_ge: "3 \<le> length (format_03d n)"
  by (simp add: format_03d_def)

lemma length_format_03d: "length (format_03d n) = 3 \<longleftrightarrow> n < 1000"
proof (cases "n < 1000")
  case True
  then show ?thesis using length_str_of_nat_small [of n] by (simp add: format_03d_def)
next
  case False
  then have "4 \<le> length (str_of_nat n)" by (simp add: length_str_of_nat_large)
  then show ?thesis using False by (simp add: format_03d_def)
qed

subsection \<open>The id counter\<close>

lemma SubAgent_init_counter:
  "id_counter (snd (SubAgent_init env args w)) =
     id_counter w + (if arg_agent_id args = None then 1 else 0)"
  by (simp add: SubAgent_init_def Let_def split: option.splits)

lemma SubAgent_init_auto_id:
  "arg_agent_id args = None \<Longrightarrow>
   agent_id (heap (snd (SubAgent_init env args w)) (fst (SubAgent_init env args w))) = format_03d (id_counter w)"
  by (simp add: SubAgent_init_def Let_def)

lemma run_logic_counter: "id_counter (snd (run_logic env a instructions w)) = id_counter w"
proof (cases a)
  case None
  then show ?thesis by (simp add: run_logic_def)
next
  case (Some r)
  obtain lres ms cs where
    run: "run_logic env (Some r) instructions w =
         (case lres of
            Inl e \<Rightarrow> (Inl e, grow r (ChatMessageUser instructions # ms) cs w)
          | Inr steps \<Rightarrow>
              ((case steps of None \<Rightarrow> Inl UnboundLocalError | Some i \<Rightarrow> Inr (status i)),
               update_store r (grow r (ChatMessageUser instructions # ms) cs w)))"
    using run_logic_grow by blast
  show ?thesis unfolding Some run by (simp split: sum.splits)
qed

lemma chat_logic_counter: "id_counter (snd (chat_logic env a question w)) = id_counter w"
  by (simp add: chat_logic_def extend_messages_def Let_def split: option.splits sum.splits)

lemma execute_counter: "id_counter (snd (execute env t args w)) = id_counter w"
  by (induction env t args w rule: execute.induct)
     (simp_all add: sub_agent_specs_execute_def run_sub_agent_single_def run_sub_agent_multi_def
        chat_with_sub_agent_single_def chat_with_sub_agent_multi_def run_logic_counter
        chat_logic_counter Let_def split: sum.splits)

lemma init_sub_agents_counter: "id_counter (snd (init_sub_agents rs w)) = id_counter w"
  by (simp add: init_sub_agents_def Let_def)

lemma exec_event_counter:
  "id_counter (exec_event env ev w) = id_counter w + (if is_auto ev then 1 else 0)"
  by (cases ev)
     (simp_all add: exec_event_def is_auto_def SubAgent_init_counter execute_counter
        init_sub_agents_counter)

lemma auto_id_eq: "auto_id env ev w = (if is_auto ev then [format_03d (id_counter w)] else [])"
  by (cases ev) (simp_all add: auto_id_def is_auto_def SubAgent_init_auto_id)

lemma exec_events_counter:
  "id_counter (exec_events env evs w) = id_counter w + length (filter is_auto evs)"
  by (induction evs arbitrary: w) (simp_all add: exec_event_counter)

lemma auto_ids_eq:
  "auto_ids env evs w =
     map format_03d [id_counter w ..< id_counter w + length (filter is_auto evs)]"
proof (induction evs arbitrary: w)
  case Nil
  then show ?case by simp
next
  case (Cons ev evs)
  show ?case
  proof (cases "is_auto ev")
    case True
    then show ?thesis
      using Cons [of "exec_event env ev w"]
      by (simp add: auto_id_eq exec_event_counter upt_conv_Cons del: upt_Suc)
  next
    case False
    then show ?thesis
      using Cons [of "exec_event env ev w"]
      by (simp add: auto_id_eq exec_event_counter)
  qed
qed

subsection \<open>The concrete sessions, evaluated\<close>

lemma format_001: "format_03d (Suc 0) = ''001''"
  by (simp add: format_03d_def str_of_nat.simps digit_char_def numeral_2_eq_2)

lemma format_002: "format_03d (Suc (Suc 0)) = ''002''"
  by (simp add: format_03d_def str_of_nat.simps digit_char_def numeral_2_eq_2)

lemma str_of_int_10: "str_of_int 10 = ''10''"
  by (simp add: str_of_int_def str_of_nat.simps digit_char_def)

lemma solo_fields:
  "sub_agents solo = Some [(''001'', 0)]"
  "calls solo = []"
  "heap solo 0 = \<lparr>agent_id = ''001'', max_steps = 2, public_description = [],
                   model = ''openai/gpt-4o-mini-2024-07-18-free'',
                   tools = Some [Tool ''dummy_tool''], metadata = None,
                   messages = [ChatMessageSystem (''Finish with _end_run'' @ guidance)]\<rparr>"
  by (simp_all add: solo_def init_sub_agents_def registry_of_def SubAgent_init_def Let_def
        solo_args_def default_args_def fresh_def format_001 quiet_model_def)

lemma lone_default_fields:
  "sub_agents lone_default = Some [(''001'', 0)]"
  "calls lone_default = []"
  "heap lone_default 0 = \<lparr>agent_id = ''001'', max_steps = 10, public_description = [],
                   model = ''openai/gpt-4o-mini-2024-07-18-free'',
                   tools = None, metadata = None,
                   messages = [ChatMessageSystem (''Finish with _end_run'' @ guidance)]\<rparr>"
  by (simp_all add: lone_default_def init_sub_agents_def registry_of_def SubAgent_init_def Let_def
        default_args_def fresh_def format_001 quiet_model_def)

lemma zero_budget_fields:
  "sub_agents zero_budget = Some [(''001'', 0)]"
  "calls zero_budget = []"
  "heap zero_budget 0 = \<lparr>agent_id = ''001'', max_steps = 0, public_description = [],
                   model = ''openai/gpt-4o-mini-2024-07-18-free'',
                   tools = None, metadata = None,
                   messages = [ChatMessageSystem (''Finish with _end_run'' @ guidance)]\<rparr>"
  by (simp_all add: zero_budget_def zero_budget_args_def init_sub_agents_def registry_of_def
        SubAgent_init_def Let_def default_args_def fresh_def format_001 quiet_model_def)

lemma pair_fields:
  "sub_agents pair = Some [(''001'', 0), (''002'', Suc 0)]"
  "calls pair = []"
  "heap pair 0 = \<lparr>agent_id = ''001'', max_steps = 10, public_description = [],
                   model = ''openai/gpt-4o-mini-2024-07-18-free'',
                   tools = None, metadata = None,
                   messages = [ChatMessageSystem (''Finish with _end_run'' @ guidance)]\<rparr>"
  "heap pair (Suc 0) = \<lparr>agent_id = ''002'', max_steps = 10, public_description = [],
                   model = ''openai/gpt-4o-mini-2024-07-18-free'',
                   tools = None, metadata = None,
                   messages = [ChatMessageSystem (''Finish with _end_run'' @ guidance)]\<rparr>"
  by (simp_all add: pair_def pair_built_def init_sub_agents_def registry_of_def SubAgent_init_def Let_def
        default_args_def fresh_def format_001 format_002 quiet_model_def)

lemma solo_quiet_run:
  "fst (run_logic quiet_model (Some 0) ''go'' solo) = Inr (status 1)"
  "calls (snd (run_logic quiet_model (Some 0) ''go'' solo)) =
     [Generate ''openai/gpt-4o-mini-2024-07-18-free''
        [ChatMessageSystem (''Finish with _end_run'' @ guidance), ChatMessageUser ''go'']
        (Some [Tool ''dummy_tool'', end_run]) (Inr (AssistantMessage ''YES'' None)),
      Generate ''openai/gpt-4o-mini-2024-07-18-free''
        [ChatMessageSystem (''Finish with _end_run'' @ guidance), ChatMessageUser ''go'',
         ChatMessageAssistant (AssistantMessage ''YES'' None)]
        (Some [Tool ''dummy_tool'', end_run]) (Inr (AssistantMessage ''YES'' None))]"
  by (simp_all add: run_logic_def extend_messages_def solo_fields Let_def range_py_def
        upt_rec run_step_def run_tools_def quiet_model_def truthy_def update_store_def)

lemma solo_ending_run:
  "fst (run_logic ending_model (Some 0) ''go'' solo) = Inr (status 0)"
  by (simp add: run_logic_def extend_messages_def solo_fields Let_def range_py_def
        upt_rec run_step_def run_tools_def ending_model_def quiet_model_def truthy_def
        update_store_def)

lemma solo_failing_run:
  "fst (run_sub_agent_multi failing_model ''001'' ''go'' solo) =
     Inl (CollaboratorFailure ''model unavailable'')"
  "heap (snd (run_sub_agent_multi failing_model ''001'' ''go'' solo)) 0 =
     (heap solo 0)\<lparr>messages := messages (heap solo 0) @ [ChatMessageUser ''go'']\<rparr>"
  "sub_agents (snd (run_sub_agent_multi failing_model ''001'' ''go'' solo)) = Some [(''001'', 0)]"
  by (simp_all add: run_sub_agent_multi_def get_agent_def run_logic_def extend_messages_def
        solo_fields Let_def range_py_def upt_rec run_step_def run_tools_def failing_model_def
        quiet_model_def)

section \<open>The claims\<close>

subsection \<open>C1: \<open>list_specs\<close> in multi mode\<close>

text \<open>
  C1 states that with more than one registered sub-agent \<open>list_specs()\<close> returns the
  newline-joined descriptions of all registered entities (id, model, public description,
  max steps), in registry order. The multi branch of \<open>sub_agent_specs\<close> iterates the
  registry dictionary itself, which yields its keys: for two entities built with default
  arguments it returns the two ids, not the two descriptions its docstring announces.
\<close>

theorem list_specs_multi_returns_ids:
  "init_sub_agents [0, 1] pair_built
     = ([sub_agent_specs False, run_sub_agent False, chat_with_sub_agent False], pair)
   \<and> fst (execute quiet_model (sub_agent_specs False) [] pair) = Inr ''001\<newline>002''
   \<and> list_specs_spec quiet_model pair =
       ''ID: 001\<newline>Model: openai/gpt-4o-mini-2024-07-18-free\<newline>Description: \<newline>Max Steps: 10\<newline>\<newline>ID: 002\<newline>Model: openai/gpt-4o-mini-2024-07-18-free\<newline>Description: \<newline>Max Steps: 10\<newline>''
   \<and> fst (execute quiet_model (sub_agent_specs False) [] pair) \<noteq> Inr (list_specs_spec quiet_model pair)"
  by (simp add: sub_agent_specs_execute_def pair_fields list_specs_spec_def SubAgent_str_def
        str_of_int_10 Let_def)
     (simp add: pair_def init_sub_agents_def Let_def)

subsection \<open>C2: the step budget and the only early stop\<close>



subsection \<open>C3: the status string\<close>

text \<open>
  C3: the status string a run returns reports the 0-based index of the last executed
  step, which is one less than the number of steps executed (every step invokes the model
  exactly once): a run that exhausts \<open>max_steps = n\<close> without explicit termination
  reports \<open>n - 1\<close>, a run terminated during step \<open>i\<close> reports \<open>i\<close>. A run does
  return a status whenever no collaborator raises, \<open>tools\<close> is a list and the budget is
  at least one step.
\<close>

theorem run_status_reports_last_step_index:
  "(run_logic env (Some r) instructions w = (Inr s, w') \<longrightarrow>
      1 \<le> model_invocations (new_calls w w')
      \<and> s = ''Sub agent ran for '' @ str_of_nat (model_invocations (new_calls w w') - 1)
              @ '' steps. You can now ask it questions.''
      \<and> (\<not> ended (new_calls w w') \<longrightarrow>
           s = ''Sub agent ran for '' @ str_of_nat (nat (max_steps (heap w r)) - 1)
               @ '' steps. You can now ask it questions.''))
   \<and> ((\<forall>n m. get_model env n m = None)
       \<and> (\<forall>n m ms ts. \<exists>a. generate env n m ms ts = Inr a)
       \<and> (\<forall>n a ts. \<exists>rs. call_tools env n a ts = Inr rs)
       \<and> tools (heap w r) \<noteq> None \<and> 1 \<le> max_steps (heap w r) \<longrightarrow>
       (\<exists>s. fst (run_logic env (Some r) instructions w) = Inr s))"
proof (intro conjI impI)
  assume ok: "run_logic env (Some r) instructions w = (Inr s, w')"
  obtain lres ms cs where sh: "loop_shape (range_py (max_steps (heap w r))) None lres cs"
    and run: "run_logic env (Some r) instructions w =
         (case lres of
            Inl e \<Rightarrow> (Inl e, grow r (ChatMessageUser instructions # ms) cs w)
          | Inr steps \<Rightarrow>
              ((case steps of None \<Rightarrow> Inl UnboundLocalError | Some i \<Rightarrow> Inr (status i)),
               update_store r (grow r (ChatMessageUser instructions # ms) cs w)))"
    using run_logic_grow by blast
  obtain i where l: "lres = Inr (Some i)" and si: "s = status i"
    and w': "w' = update_store r (grow r (ChatMessageUser instructions # ms) cs w)"
    using run ok by (auto split: sum.splits option.splits)
  have n: "new_calls w w' = cs" by (simp add: new_calls_def w')
  have pos: "model_invocations cs \<noteq> 0"
    using sh l by (auto simp: loop_shape_def split: if_splits)
  have le: "model_invocations cs \<le> nat (max_steps (heap w r))"
    using sh by (simp add: loop_shape_def)
  have "Some i = Some (range_py (max_steps (heap w r)) ! (model_invocations cs - 1))"
    using sh l pos by (simp add: loop_shape_def)
  then have i: "i = model_invocations cs - 1"
    using pos le by (simp add: range_py_nth)
  show "1 \<le> model_invocations (new_calls w w')" using pos by (simp add: n)
  show "s = ''Sub agent ran for '' @ str_of_nat (model_invocations (new_calls w w') - 1)
               @ '' steps. You can now ask it questions.''"
    by (simp add: si i n status_def)
  show "s = ''Sub agent ran for '' @ str_of_nat (nat (max_steps (heap w r)) - 1)
               @ '' steps. You can now ask it questions.''"
    if "\<not> ended (new_calls w w')"
    using sh l that by (auto simp: si i n status_def loop_shape_def)
next
  assume "(\<forall>n m. get_model env n m = None)
       \<and> (\<forall>n m ms ts. \<exists>a. generate env n m ms ts = Inr a)
       \<and> (\<forall>n a ts. \<exists>rs. call_tools env n a ts = Inr rs)
       \<and> tools (heap w r) \<noteq> None \<and> 1 \<le> max_steps (heap w r)"
  then show "\<exists>s. fst (run_logic env (Some r) instructions w) = Inr s"
    using run_logic_returns [of env w r instructions] by blast
qed

theorem run_status_reports_last_step_index_witness:
  "fst (run_logic quiet_model (Some 0) ''go'' solo)
     = Inr ''Sub agent ran for 1 steps. You can now ask it questions.''
   \<and> model_invocations (new_calls solo (snd (run_logic quiet_model (Some 0) ''go'' solo))) = 2
   \<and> max_steps (heap solo 0) = 2
   \<and> fst (run_logic ending_model (Some 0) ''go'' solo)
     = Inr ''Sub agent ran for 0 steps. You can now ask it questions.''
   \<and> model_invocations (new_calls solo (snd (run_logic ending_model (Some 0) ''go'' solo))) = 1
   \<and> (\<forall>n m. get_model ending_model n m = None)
   \<and> (\<forall>n m ms ts. \<exists>a. generate ending_model n m ms ts = Inr a)
   \<and> (\<forall>n a ts. \<exists>rs. call_tools ending_model n a ts = Inr rs)"
proof -
  let ?q = "run_logic quiet_model (Some 0) ''go'' solo"
  let ?e = "run_logic ending_model (Some 0) ''go'' solo"
  have s0: "str_of_nat 0 = ''0''" and s1: "str_of_nat (Suc 0) = ''1''"
    by (simp_all add: str_of_nat.simps digit_char_def)
  have q: "?q = (Inr (status 1), snd ?q)"
    using solo_quiet_run(1) by (metis prod.collapse)
  have nr: "(\<forall>n m. get_model ending_model n m = None)
       \<and> (\<forall>n m ms ts. \<exists>a. generate ending_model n m ms ts = Inr a)
       \<and> (\<forall>n a ts. \<exists>rs. call_tools ending_model n a ts = Inr rs)"
    by (simp add: ending_model_def quiet_model_def)
  have t: "tools (heap solo 0) \<noteq> None \<and> 1 \<le> max_steps (heap solo 0)"
    by (simp add: solo_fields)
  have "\<exists>s. fst ?e = Inr s"
    using run_status_reports_last_step_index
            [of ending_model 0 "''go''" solo "status 0" "snd ?e", THEN conjunct2] nr t
    by blast
  then obtain s where es: "fst ?e = Inr s" by blast
  then have e: "?e = (Inr s, snd ?e)" by (metis prod.collapse)
  have s: "s = status 0" using es solo_ending_run by simp
  have nq: "\<not> ended (new_calls solo (snd ?q))"
    by (simp add: new_calls_def solo_quiet_run(2) solo_fields ended_def is_end_dispatch_def)
  have iq: "model_invocations (new_calls solo (snd ?q)) = 2"
    by (simp add: new_calls_def solo_quiet_run(2) solo_fields model_invocations_def is_generate_def)
  have "1 \<le> model_invocations (new_calls solo (snd ?e))"
    and "s = ''Sub agent ran for '' @ str_of_nat (model_invocations (new_calls solo (snd ?e)) - 1)
               @ '' steps. You can now ask it questions.''"
    using run_status_reports_last_step_index [of ending_model 0 "''go''" solo s "snd ?e"] e by blast+
  then have "str_of_nat (model_invocations (new_calls solo (snd ?e)) - 1) = str_of_nat 0"
    and p: "1 \<le> model_invocations (new_calls solo (snd ?e))"
    unfolding s by (simp_all add: status_def)
  then have "model_invocations (new_calls solo (snd ?e)) - 1 = 0"
    by (metis decimal_value_str_of_nat)
  then have ie: "model_invocations (new_calls solo (snd ?e)) = 1"
    using p by linarith
  have "status 1 = ''Sub agent ran for '' @ str_of_nat (nat (max_steps (heap solo 0)) - 1)
               @ '' steps. You can now ask it questions.''"
    using run_status_reports_last_step_index [of quiet_model 0 "''go''" solo "status 1" "snd ?q"] q nq
    by blast
  then show ?thesis
    using nq iq ie solo_quiet_run(1) solo_ending_run nr
    by (simp add: solo_fields status_def s0 s1)
qed

subsection \<open>C4: a run whose collaborator raises\<close>

text \<open>
  C4 states that after a run in which the model or the tool dispatcher raises, the
  messages appended during that run are not visible in the registry, whose stored entity
  state is unchanged. The registry holds the very object the run appends to, so this is
  false: with a model that raises at once, the entity the registry shows for \<open>001\<close> has
  gained the instruction.
\<close>

theorem failed_run_is_visible_in_registry:
  "fst (run_sub_agent_multi failing_model ''001'' ''go'' solo)
     = Inl (CollaboratorFailure ''model unavailable'')
   \<and> registry_view solo ''001'' = Some (heap solo 0)
   \<and> registry_view (snd (run_sub_agent_multi failing_model ''001'' ''go'' solo)) ''001''
     = Some ((heap solo 0)\<lparr>messages := messages (heap solo 0) @ [ChatMessageUser ''go'']\<rparr>)
   \<and> registry_view (snd (run_sub_agent_multi failing_model ''001'' ''go'' solo)) ''001''
     \<noteq> registry_view solo ''001''"
  by (simp add: registry_view_def get_agent_def solo_failing_run solo_fields)

text \<open>
  C4 as amended: when a collaborator raises during a run, no write-back happens (the
  registry dictionary is exactly what it was, and the id still resolves to the same
  object), but the instruction and the messages appended before the failure are visible
  through the registry, because the registry and the caller share the entity object.
\<close>

theorem failed_run_skips_write_back_but_shares_entity:
  assumes "run_sub_agent_multi env sub_agent_id instructions w = (Inl (CollaboratorFailure x), w')"
  shows "sub_agents w' = sub_agents w
       \<and> (\<exists>r ms. get_agent (Some sub_agent_id) w = Inr (Some r)
              \<and> get_agent (Some sub_agent_id) w' = Inr (Some r)
              \<and> messages (heap w' r) = messages (heap w r) @ ChatMessageUser instructions # ms)
       \<and> registry_view w' sub_agent_id \<noteq> registry_view w sub_agent_id"
proof -
  from assms obtain a where ga: "get_agent (Some sub_agent_id) w = Inr a"
    and rl: "run_logic env a instructions w = (Inl (CollaboratorFailure x), w')"
    by (auto simp: run_sub_agent_multi_def get_agent_Some)
  from rl obtain r where a: "a = Some r"
    by (cases a) (auto simp: run_logic_def)
  obtain lres ms cs where
    run: "run_logic env (Some r) instructions w =
         (case lres of
            Inl e \<Rightarrow> (Inl e, grow r (ChatMessageUser instructions # ms) cs w)
          | Inr steps \<Rightarrow>
              ((case steps of None \<Rightarrow> Inl UnboundLocalError | Some i \<Rightarrow> Inr (status i)),
               update_store r (grow r (ChatMessageUser instructions # ms) cs w)))"
    using run_logic_grow by blast
  have w': "w' = grow r (ChatMessageUser instructions # ms) cs w"
    using run rl a by (auto split: sum.splits option.splits)
  have s: "sub_agents w' = sub_agents w" by (simp add: w')
  have g': "get_agent (Some sub_agent_id) w' = Inr (Some r)"
    using ga a s by (simp add: get_agent_def)
  have m: "messages (heap w' r) = messages (heap w r) @ ChatMessageUser instructions # ms"
    by (simp add: w')
  have "registry_view w' sub_agent_id \<noteq> registry_view w sub_agent_id"
  proof
    assume "registry_view w' sub_agent_id = registry_view w sub_agent_id"
    then have "heap w' r = heap w r" using ga a g' by (simp add: registry_view_def)
    then show False using m by simp
  qed
  then show ?thesis using s ga a g' m by blast
qed

theorem failed_run_skips_write_back_but_shares_entity_witness:
  "run_sub_agent_multi failing_model ''001'' ''go'' solo
     = (Inl (CollaboratorFailure ''model unavailable''),
        snd (run_sub_agent_multi failing_model ''001'' ''go'' solo))
   \<and> sub_agents (snd (run_sub_agent_multi failing_model ''001'' ''go'' solo)) = sub_agents solo
   \<and> (\<exists>ms. messages (heap (snd (run_sub_agent_multi failing_model ''001'' ''go'' solo)) 0)
             = messages (heap solo 0) @ ChatMessageUser ''go'' # ms)"
proof -
  let ?run = "run_sub_agent_multi failing_model ''001'' ''go'' solo"
  have r: "?run = (Inl (CollaboratorFailure ''model unavailable''), snd ?run)"
    using solo_failing_run(1) by (metis prod.collapse)
  have g: "get_agent (Some ''001'') solo = Inr (Some 0)"
    by (simp add: get_agent_def solo_fields)
  show ?thesis
    using failed_run_skips_write_back_but_shares_entity [OF r] r g by auto
qed

subsection \<open>C5: chat\<close>

text \<open>
  C5: a chat invocation whose model call answers appends exactly two messages to the
  target entity, the user message with the question and then the assistant message;
  its only collaborator call is one model invocation with no \<open>tools\<close> argument; it
  writes the entity back to the registry under its id; and it returns the text of the
  assistant message.
\<close>

theorem chat_appends_question_and_answer:
  assumes "get_model env (length (calls w)) (model (heap w r)) = None"
      and "generate env (length (calls w)) (model (heap w r))
             (messages (heap w r) @ [ChatMessageUser question]) None = Inr msg"
  shows "fst (chat_logic env (Some r) question w) = Inr (message_text msg)
       \<and> heap (snd (chat_logic env (Some r) question w)) =
           (heap w)(r := (heap w r)\<lparr>messages := messages (heap w r)
                            @ [ChatMessageUser question, ChatMessageAssistant msg]\<rparr>)
       \<and> calls (snd (chat_logic env (Some r) question w)) =
           calls w @ [Generate (model (heap w r)) (messages (heap w r) @ [ChatMessageUser question])
                        None (Inr msg)]
       \<and> sub_agents (snd (chat_logic env (Some r) question w)) =
           Some (AList.update (agent_id (heap w r)) r (case sub_agents w of None \<Rightarrow> [] | Some d \<Rightarrow> d))
       \<and> get_agent (Some (agent_id (heap w r))) (snd (chat_logic env (Some r) question w)) = Inr (Some r)"
  using assms
  by (simp add: chat_logic_def extend_messages_def Let_def update_store_def get_agent_def update_conv')

theorem chat_appends_question_and_answer_witness:
  "get_model quiet_model (length (calls lone_default)) (model (heap lone_default 0)) = None
   \<and> fst (chat_logic quiet_model (Some 0) ''Are you ready? Answer YES.'' lone_default) = Inr ''YES''
   \<and> messages (heap (snd (chat_logic quiet_model (Some 0) ''Are you ready? Answer YES.'' lone_default)) 0)
     = [ChatMessageSystem (''Finish with _end_run'' @ guidance),
        ChatMessageUser ''Are you ready? Answer YES.'',
        ChatMessageAssistant (AssistantMessage ''YES'' None)]"
proof -
  have gm: "get_model quiet_model (length (calls lone_default)) (model (heap lone_default 0)) = None"
    by (simp add: quiet_model_def)
  have gen: "generate quiet_model (length (calls lone_default)) (model (heap lone_default 0))
             (messages (heap lone_default 0) @ [ChatMessageUser ''Are you ready? Answer YES.'']) None
             = Inr (AssistantMessage ''YES'' None)"
    by (simp add: quiet_model_def)
  show ?thesis
    using chat_appends_question_and_answer [OF gm gen] gm by (simp add: lone_default_fields)
qed

subsection \<open>C6: the tool surface\<close>

text \<open>
  C6: for no sub-agent \<open>init_sub_agents\<close> returns no tool and leaves the store as it
  is; for one sub-agent it returns three tools whose run and chat callables take no
  \<open>sub_agent_id\<close>; for two or more it returns three tools whose run and chat callables
  take \<open>sub_agent_id\<close> first. The parameter list belongs to the tool value built then,
  not to the registry.
\<close>

theorem init_sub_agents_tool_surface:
  "init_sub_agents [] w = ([], w)
   \<and> fst (init_sub_agents [a] w) = [sub_agent_specs True, run_sub_agent True, chat_with_sub_agent True]
   \<and> map parameters (fst (init_sub_agents [a] w)) = [[], [''instructions''], [''question'']]
   \<and> fst (init_sub_agents (a # b # rs) w)
       = [sub_agent_specs False, run_sub_agent False, chat_with_sub_agent False]
   \<and> map parameters (fst (init_sub_agents (a # b # rs) w))
       = [[], [''sub_agent_id'', ''instructions''], [''sub_agent_id'', ''question'']]"
  by (simp add: init_sub_agents_def Let_def)

subsection \<open>C7: resolution\<close>

text \<open>
  C7: resolution with no id returns the entity at the first position of the registry,
  which after \<open>init_sub_agents\<close> on entities with distinct ids is the first one given;
  resolution with an id that is not a key of the registry returns \<open>None\<close>, never an
  entity; and the multi-mode run and chat capabilities then fail on it, with the
  \<open>AttributeError\<close> of reading \<open>None.messages\<close>, changing nothing.
\<close>

theorem resolution_default_and_unknown:
  "(sub_agents w = Some ((k, r) # d) \<longrightarrow> get_agent None w = Inr (Some r))
   \<and> (rs \<noteq> [] \<and> distinct (map (\<lambda>r. agent_id (heap w0 r)) rs) \<longrightarrow>
        get_agent None (snd (init_sub_agents rs w0)) = Inr (Some (hd rs)))
   \<and> (sid \<notin> fst ` set (case sub_agents w of None \<Rightarrow> [] | Some d \<Rightarrow> d) \<longrightarrow>
        get_agent (Some sid) w = Inr None
        \<and> run_sub_agent_multi env sid instructions w = (Inl AttributeError, w)
        \<and> chat_with_sub_agent_multi env sid question w = (Inl AttributeError, w))"
proof (intro conjI impI)
  assume "sub_agents w = Some ((k, r) # d)"
  then show "get_agent None w = Inr (Some r)" by (rule get_agent_default_first)
next
  assume a: "rs \<noteq> [] \<and> distinct (map (\<lambda>r. agent_id (heap w0 r)) rs)"
  then obtain r rest where rs: "rs = r # rest" by (cases rs) auto
  have "sub_agents (snd (init_sub_agents rs w0)) = Some (map (\<lambda>r. (agent_id (heap w0 r), r)) rs)"
    using a by (simp add: init_sub_agents_def registry_of_distinct Let_def rs)
  then show "get_agent None (snd (init_sub_agents rs w0)) = Inr (Some (hd rs))"
    by (simp add: rs get_agent_default_first)
next
  assume a: "sid \<notin> fst ` set (case sub_agents w of None \<Rightarrow> [] | Some d \<Rightarrow> d)"
  then show g: "get_agent (Some sid) w = Inr None" by (rule get_agent_unknown)
  show "run_sub_agent_multi env sid instructions w = (Inl AttributeError, w)"
    by (simp add: run_sub_agent_multi_def g run_logic_def)
  show "chat_with_sub_agent_multi env sid question w = (Inl AttributeError, w)"
    by (simp add: chat_with_sub_agent_multi_def g chat_logic_def)
qed

theorem resolution_default_and_unknown_witness:
  "sub_agents pair = Some ((''001'', 0) # [(''002'', Suc 0)])
   \<and> get_agent None pair = Inr (Some 0)
   \<and> ''000'' \<notin> fst ` set (case sub_agents pair of None \<Rightarrow> [] | Some d \<Rightarrow> d)
   \<and> get_agent (Some ''000'') pair = Inr None
   \<and> run_sub_agent_multi quiet_model ''000'' ''go'' pair = (Inl AttributeError, pair)
   \<and> chat_with_sub_agent_multi quiet_model ''000'' ''ready?'' pair = (Inl AttributeError, pair)
   \<and> distinct (map (\<lambda>r. agent_id (heap pair r)) [0, Suc 0])
   \<and> get_agent None (snd (init_sub_agents [0, Suc 0] pair)) = Inr (Some 0)"
proof -
  have p: "sub_agents pair = Some ((''001'', 0) # [(''002'', Suc 0)])"
    by (simp add: pair_fields)
  have u: "''000'' \<notin> fst ` set (case sub_agents pair of None \<Rightarrow> [] | Some d \<Rightarrow> d)"
    by (simp add: pair_fields)
  have d: "[0, Suc 0] \<noteq> [] \<and> distinct (map (\<lambda>r. agent_id (heap pair r)) [0, Suc 0])"
    by (simp add: pair_fields)
  show ?thesis
    using resolution_default_and_unknown
      [of pair "''001''" 0 "[(''002'', Suc 0)]" "[0, Suc 0]" pair "''000''" quiet_model "''go''" "''ready?''"]
      p u d
    by simp
qed

subsection \<open>C8: automatically assigned ids\<close>

text \<open>
  C8 states that the ids assigned when the id is omitted are distinct, strictly
  increasing, 3-digit zero-padded decimal strings starting at \<open>001\<close>, from one counter
  that is never decremented or reset. The format \<open>:03d\<close> pads to at least three digits
  and does not truncate: the thousandth entity a process constructs with the id omitted
  gets the four-character id \<open>1000\<close>.
\<close>

theorem thousandth_auto_id_has_four_digits:
  "auto_ids quiet_model (replicate 1000 (Construct default_args)) fresh ! 999 = ''1000''
   \<and> length (auto_ids quiet_model (replicate 1000 (Construct default_args)) fresh ! 999) \<noteq> 3"
proof -
  have "filter is_auto (replicate 1000 (Construct default_args)) = replicate 1000 (Construct default_args)"
    by (simp add: is_auto_def default_args_def)
  then have "auto_ids quiet_model (replicate 1000 (Construct default_args)) fresh = map format_03d [1 ..< 1001]"
    by (simp add: auto_ids_eq fresh_def)
  then show ?thesis
    by (simp add: format_03d_def str_of_nat.simps digit_char_def)
qed

text \<open>
  C8 as amended: over any sequence of constructions, registry builds and tool calls, the
  ids assigned to the constructions with the id omitted are the successive values of the
  one counter, each written in decimal and zero-padded to at least three characters
  (exactly three while the value is below 1000); so they are distinct and their numeric
  values strictly increase in construction order; the counter ends at its initial value
  plus the number of such constructions, whatever else happened in between; and in a
  fresh process the first id is \<open>001\<close>.
\<close>

theorem auto_ids_follow_the_counter:
  "auto_ids env evs w = map format_03d [id_counter w ..< id_counter w + length (filter is_auto evs)]
   \<and> map decimal_value (auto_ids env evs w) = [id_counter w ..< id_counter w + length (filter is_auto evs)]
   \<and> sorted_wrt (<) (map decimal_value (auto_ids env evs w))
   \<and> distinct (auto_ids env evs w)
   \<and> (\<forall>i < length (auto_ids env evs w).
        3 \<le> length (auto_ids env evs w ! i)
        \<and> (length (auto_ids env evs w ! i) = 3 \<longleftrightarrow> id_counter w + i < 1000))
   \<and> id_counter (exec_events env evs w) = id_counter w + length (filter is_auto evs)
   \<and> format_03d (id_counter fresh) = ''001''"
proof -
  let ?c = "id_counter w" and ?n = "length (filter is_auto evs)"
  have e: "auto_ids env evs w = map format_03d [?c ..< ?c + ?n]" by (rule auto_ids_eq)
  have d: "map decimal_value (auto_ids env evs w) = [?c ..< ?c + ?n]"
    unfolding e by (simp add: decimal_value_format_03d comp_def)
  have s: "sorted_wrt (<) (map decimal_value (auto_ids env evs w))"
    unfolding d by simp
  have di: "distinct (auto_ids env evs w)"
    using distinct_upt [of ?c "?c + ?n"] unfolding d [symmetric] by (simp add: distinct_map)
  have l: "\<forall>i < length (auto_ids env evs w).
        3 \<le> length (auto_ids env evs w ! i)
        \<and> (length (auto_ids env evs w ! i) = 3 \<longleftrightarrow> id_counter w + i < 1000)"
    unfolding e by (simp add: length_format_03d_ge length_format_03d)
  have f: "format_03d (id_counter fresh) = ''001''"
    by (simp add: fresh_def format_001)
  show ?thesis using e d s di l f exec_events_counter by blast
qed

theorem auto_ids_follow_the_counter_witness:
  "auto_ids quiet_model
     [Construct default_args, InitSubAgents [0], Construct default_args, InitSubAgents [1]] fresh
     = [''001'', ''002'']
   \<and> id_counter (exec_events quiet_model
        [Construct default_args, InitSubAgents [0], Construct default_args, InitSubAgents [1]] fresh) = 3"
proof -
  let ?evs = "[Construct default_args, InitSubAgents [0], Construct default_args, InitSubAgents [1]]"
  have n: "length (filter is_auto ?evs) = 2"
    by (simp add: is_auto_def default_args_def)
  have c: "id_counter fresh = 1" by (simp add: fresh_def)
  have u: "[1 ..< 1 + 2] = [Suc 0, Suc (Suc 0)]"
    by (simp add: upt_rec)
  have "auto_ids quiet_model ?evs fresh = map format_03d [1 ..< 1 + 2]"
    using auto_ids_follow_the_counter [of quiet_model ?evs fresh] unfolding n c by blast
  moreover have "id_counter (exec_events quiet_model ?evs fresh) = 1 + 2"
    using auto_ids_follow_the_counter [of quiet_model ?evs fresh] unfolding n c by blast
  ultimately show ?thesis
    unfolding u by (simp add: format_001 format_002)
qed

subsection \<open>C9: running an entity constructed without tools\<close>

text \<open>
  C9 states that a run against any entity constructed with \<open>tools\<close> omitted raises a
  \<open>TypeError\<close> while building the capability set. Two inputs the code accepts do
  otherwise. With \<open>max_steps = 0\<close> the loop body is never entered: the entity is
  written back and the status line reads the unbound loop variable, an
  \<open>UnboundLocalError\<close>. And \<open>get_model\<close> is evaluated before the concatenation, so
  when resolving the model selector raises, that exception is the one the caller sees.
\<close>

theorem run_without_tools_may_raise_otherwise:
  "arg_tools zero_budget_args = None
   \<and> tools (heap zero_budget 0) = None
   \<and> fst (run_logic quiet_model (Some 0) ''go'' zero_budget) = Inl UnboundLocalError
   \<and> fst (run_logic quiet_model (Some 0) ''go'' zero_budget) \<noteq> Inl TypeError
   \<and> sub_agents (snd (run_logic quiet_model (Some 0) ''go'' zero_budget)) = Some [(''001'', 0)]
   \<and> arg_tools default_args = None
   \<and> tools (heap lone_default 0) = None
   \<and> fst (run_logic unresolvable_model (Some 0) ''go'' lone_default)
       = Inl (CollaboratorFailure ''unknown model'')
   \<and> fst (run_logic unresolvable_model (Some 0) ''go'' lone_default) \<noteq> Inl TypeError"
proof -
  have z: "run_logic quiet_model (Some 0) ''go'' zero_budget =
             (Inl UnboundLocalError,
              update_store 0 (extend_messages 0 [ChatMessageUser ''go''] zero_budget))"
    by (simp add: run_logic_def extend_messages_def zero_budget_fields Let_def range_py_def)
  have s: "sub_agents (update_store 0 (extend_messages 0 [ChatMessageUser ''go''] zero_budget))
             = Some [(''001'', 0)]"
    by (simp add: update_store_def extend_messages_def zero_budget_fields Let_def)
  have u: "fst (run_logic unresolvable_model (Some 0) ''go'' lone_default)
             = Inl (CollaboratorFailure ''unknown model'')"
    by (simp add: run_logic_def extend_messages_def lone_default_fields Let_def range_py_def
          upt_rec run_step_def unresolvable_model_def quiet_model_def)
  show ?thesis
    using z s u
    by (simp add: zero_budget_args_def default_args_def zero_budget_fields lone_default_fields)
qed

text \<open>
  C9 as amended: the constructor stores the \<open>tools\<close> argument unchanged, \<open>None\<close>
  when omitted. A run against an entity whose \<open>tools\<close> is \<open>None\<close> and whose step
  budget is at least one fails in the first iteration while building the capability set:
  only the instruction has been appended, no model invocation has been made, nothing is
  written back, and the exception is the \<open>TypeError\<close> of \<open>None + list\<close> unless
  resolving the model selector has raised already. A run returns normally only if
  \<open>tools\<close> is a list.
\<close>

theorem run_without_tools_raises_TypeError:
  "tools (heap (snd (SubAgent_init env args w0)) (fst (SubAgent_init env args w0))) = arg_tools args
   \<and> (tools (heap w r) = None \<and> 1 \<le> max_steps (heap w r) \<longrightarrow>
        snd (run_logic env (Some r) instructions w) = extend_messages r [ChatMessageUser instructions] w
        \<and> fst (run_logic env (Some r) instructions w) =
            Inl (case get_model env (length (calls w)) (model (heap w r)) of
                   None \<Rightarrow> TypeError | Some x \<Rightarrow> CollaboratorFailure x))
   \<and> (fst (run_logic env (Some r2) instructions2 w2) = Inr s \<longrightarrow> tools (heap w2 r2) \<noteq> None)"
proof (intro conjI impI)
  show "tools (heap (snd (SubAgent_init env args w0)) (fst (SubAgent_init env args w0))) = arg_tools args"
    by (simp add: SubAgent_init_def Let_def split: option.splits)
next
  assume a: "tools (heap w r) = None \<and> 1 \<le> max_steps (heap w r)"
  then show "snd (run_logic env (Some r) instructions w) = extend_messages r [ChatMessageUser instructions] w"
    by (simp add: run_logic_def Let_def extend_messages_def range_py_pos run_step_no_tools)
  show "fst (run_logic env (Some r) instructions w) =
            Inl (case get_model env (length (calls w)) (model (heap w r)) of
                   None \<Rightarrow> TypeError | Some x \<Rightarrow> CollaboratorFailure x)"
    using a by (simp add: run_logic_def Let_def extend_messages_def range_py_pos run_step_no_tools)
next
  assume "fst (run_logic env (Some r2) instructions2 w2) = Inr s"
  then show "tools (heap w2 r2) \<noteq> None"
    using run_logic_no_tools [of w2 r2 env instructions2] by auto
qed

theorem run_without_tools_raises_TypeError_witness:
  "arg_tools default_args = None
   \<and> tools (heap lone_default 0) = None \<and> 1 \<le> max_steps (heap lone_default 0)
   \<and> run_logic quiet_model (Some 0) ''go'' lone_default
       = (Inl TypeError, extend_messages 0 [ChatMessageUser ''go''] lone_default)
   \<and> calls (snd (run_logic quiet_model (Some 0) ''go'' lone_default)) = []
   \<and> fst (run_logic quiet_model (Some 0) ''go'' solo) = Inr (status 1)
   \<and> tools (heap solo 0) \<noteq> None"
proof -
  have a: "tools (heap lone_default 0) = None \<and> 1 \<le> max_steps (heap lone_default 0)"
    by (simp add: lone_default_fields)
  have g: "get_model quiet_model (length (calls lone_default)) (model (heap lone_default 0)) = None"
    by (simp add: quiet_model_def)
  have c: "calls (extend_messages 0 [ChatMessageUser ''go''] lone_default) = []"
    by (simp add: extend_messages_def lone_default_fields)
  have d: "arg_tools default_args = None" by (simp add: default_args_def)
  show ?thesis
    using run_without_tools_raises_TypeError
      [of quiet_model default_args fresh lone_default 0 "''go''" 0 "''go''" solo "status 1"]
      a g c d solo_quiet_run(1)
    by (simp add: prod_eq_iff)
qed

subsection \<open>C10: default resolution on an absent or empty registry\<close>

text \<open>
  C10: resolution with no id raises \<open>IndexError\<close> exactly when the registry is absent
  from the store or empty; with at least one registered entity it returns the first one;
  it never returns \<open>None\<close>.
\<close>

theorem default_resolution_needs_an_entity:
  "((sub_agents w = None \<or> sub_agents w = Some []) \<longrightarrow> get_agent None w = Inl IndexError)
   \<and> (get_agent None w = Inl IndexError \<longrightarrow> (sub_agents w = None \<or> sub_agents w = Some []))
   \<and> (sub_agents w2 = Some ((k, r) # d) \<longrightarrow> get_agent None w2 = Inr (Some r))
   \<and> get_agent None w \<noteq> Inr None"
  by (auto simp: get_agent_def split: option.splits list.splits)

theorem default_resolution_needs_an_entity_witness:
  "sub_agents fresh = None \<and> get_agent None fresh = Inl IndexError
   \<and> sub_agents (fresh\<lparr>sub_agents := Some []\<rparr>) = Some []
   \<and> get_agent None (fresh\<lparr>sub_agents := Some []\<rparr>) = Inl IndexError
   \<and> sub_agents lone_default = Some ((''001'', 0) # []) \<and> get_agent None lone_default = Inr (Some 0)"
proof -
  have f: "sub_agents fresh = None" by (simp add: fresh_def)
  have e: "sub_agents (fresh\<lparr>sub_agents := Some []\<rparr>) = Some []" by simp
  have l: "sub_agents lone_default = Some ((''001'', 0) # [])" by (simp add: lone_default_fields)
  show ?thesis
    using default_resolution_needs_an_entity [of fresh lone_default "''001''" 0 "[]"]
          default_resolution_needs_an_entity [of "fresh\<lparr>sub_agents := Some []\<rparr>" lone_default "''001''" 0 "[]"]
          f e l
    by simp
qed

end
